theory Spec2Isabelle
  imports Complex_Main "HOL-Library.AList"
begin

section \<open>JavaScript numbers, dates and strings as the limiter uses them\<close>

text \<open>
  The rate limiter (server/rate-limiter.ts, server/storage.ts) computes with JavaScript
  numbers. Every number it handles is an integer (epoch milliseconds, counts, parsed
  window lengths) or \<open>NaN\<close>; an infinity only appears inside
  \<open>Math.floor(now / 0) * 0\<close>, which is \<open>NaN\<close> again. Integers are modelled
  exactly by \<open>int\<close>, which is what an IEEE double does for magnitudes below \<open>2^53\<close>.
  Comparisons with \<open>NaN\<close> are false, arithmetic with \<open>NaN\<close> is \<open>NaN\<close>.
\<close>

datatype jsnum = Num int | NaN

fun jadd :: "jsnum \<Rightarrow> jsnum \<Rightarrow> jsnum" where
  "jadd (Num a) (Num b) = Num (a + b)"
| "jadd _ _ = NaN"

fun jsub :: "jsnum \<Rightarrow> jsnum \<Rightarrow> jsnum" where
  "jsub (Num a) (Num b) = Num (a - b)"
| "jsub _ _ = NaN"

fun jmul :: "jsnum \<Rightarrow> jsnum \<Rightarrow> jsnum" where
  "jmul (Num a) (Num b) = Num (a * b)"
| "jmul _ _ = NaN"

fun jgt :: "jsnum \<Rightarrow> jsnum \<Rightarrow> bool" where
  "jgt (Num a) (Num b) = (a > b)"
| "jgt _ _ = False"

fun jge :: "jsnum \<Rightarrow> jsnum \<Rightarrow> bool" where
  "jge (Num a) (Num b) = (a \<ge> b)"
| "jge _ _ = False"

fun jle :: "jsnum \<Rightarrow> jsnum \<Rightarrow> bool" where
  "jle (Num a) (Num b) = (a \<le> b)"
| "jle _ _ = False"

text \<open>\<open>Math.ceil(x / 1000)\<close> on an integer \<open>x\<close>: the least integer not below the quotient.\<close>

fun ceil_div_1000 :: "jsnum \<Rightarrow> jsnum" where
  "ceil_div_1000 (Num x) = Num (- ((- x) div 1000))"
| "ceil_div_1000 NaN = NaN"

text \<open>
  \<open>Math.floor(a / b) * b\<close>: for \<open>b = 0\<close> the quotient is an infinity or \<open>NaN\<close>
  and the product is \<open>NaN\<close>; otherwise \<open>div\<close> on \<open>int\<close> is the floor of the quotient.
\<close>

fun floor_to_multiple :: "jsnum \<Rightarrow> jsnum \<Rightarrow> jsnum" where
  "floor_to_multiple (Num a) (Num b) = (if b = 0 then NaN else Num ((a div b) * b))"
| "floor_to_multiple _ _ = NaN"

text \<open>
  \<open>new Date(v).getTime()\<close>: the time value is clipped (ECMAScript TimeClip); outside
  \<open>\<plusminus> 8.64e15\<close> ms, or for \<open>NaN\<close>, the date is invalid and reads back as \<open>NaN\<close>.
\<close>

fun newDate :: "jsnum \<Rightarrow> jsnum" where
  "newDate (Num v) = (if \<bar>v\<bar> \<le> 8640000000000000 then Num v else NaN)"
| "newDate NaN = NaN"

text \<open>
  Strings are lists of code units below 256. \<open>is_ws\<close> is the white space that
  \<open>parseInt\<close> and \<open>String.prototype.trim\<close> strip: TAB, LF, VT, FF, CR, SP, NBSP.
\<close>

definition is_ws :: "char \<Rightarrow> bool" where
  "is_ws c \<longleftrightarrow> (of_char c :: nat) \<in> {9, 10, 11, 12, 13, 32, 160}"

definition digit_val :: "char \<Rightarrow> nat option" where
  "digit_val c =
     (let n = (of_char c :: nat) in
      if 48 \<le> n \<and> n \<le> 57 then Some (n - 48)
      else if 97 \<le> n \<and> n \<le> 102 then Some (n - 87)
      else if 65 \<le> n \<and> n \<le> 70 then Some (n - 55)
      else None)"

definition is_radix_digit :: "nat \<Rightarrow> char \<Rightarrow> bool" where
  "is_radix_digit R c = (case digit_val c of None \<Rightarrow> False | Some d \<Rightarrow> d < R)"

definition digits_value :: "nat \<Rightarrow> string \<Rightarrow> nat" where
  "digits_value R Z = foldl (\<lambda>acc c. acc * R + the (digit_val c)) 0 Z"

text \<open>
  The built-in \<open>parseInt(string)\<close> with no radix argument: skip leading white space,
  read an optional sign, switch to radix 16 on a \<open>0x\<close>/\<open>0X\<close> prefix, read the longest
  run of digits, ignore whatever follows; \<open>NaN\<close> when no digit was read.
\<close>

definition parseInt :: "string \<Rightarrow> jsnum" where
  "parseInt inputString =
     (let S = dropWhile is_ws inputString;
          sign = (case S of c # _ \<Rightarrow> if c = CHR ''-'' then (- 1 :: int) else 1 | [] \<Rightarrow> 1);
          S1 = (case S of c # r \<Rightarrow> if c = CHR ''+'' \<or> c = CHR ''-'' then r else S | [] \<Rightarrow> S);
          hex = (case S1 of a # b # _ \<Rightarrow> a = CHR ''0'' \<and> (b = CHR ''x'' \<or> b = CHR ''X'') | _ \<Rightarrow> False);
          R = (if hex then 16 else 10);
          S2 = (if hex then drop 2 S1 else S1);
          Z = takeWhile (is_radix_digit R) S2
      in if Z = [] then NaN else Num (sign * int (digits_value R Z)))"

section \<open>TimeWindow parser\<close>

text \<open>
  \<open>parseTimeWindow\<close> is defined three times in rate-limiter.ts (lines 78-89, 147-158,
  221-232), once per limiter class, with the same body; one definition stands for all.
  \<open>timeWindow.slice(-1)\<close> is the last character (the empty string for an empty input),
  \<open>timeWindow.slice(0, -1)\<close> everything before it.
\<close>

definition parseTimeWindow :: "string \<Rightarrow> jsnum" where
  "parseTimeWindow timeWindow =
     (let unit = (if timeWindow = [] then [] else [last timeWindow]);
          val = parseInt (butlast timeWindow)
      in if unit = ''s'' then jmul val (Num 1000)
         else if unit = ''m'' then jmul (jmul val (Num 60)) (Num 1000)
         else if unit = ''h'' then jmul (jmul (jmul val (Num 60)) (Num 60)) (Num 1000)
         else if unit = ''d'' then jmul (jmul (jmul (jmul val (Num 24)) (Num 60)) (Num 60)) (Num 1000)
         else Num (60 * 1000))"

text \<open>The decimal numeral of a natural number, to state what the parser reads back.\<close>

fun decimal :: "nat \<Rightarrow> string" where
  "decimal n = (if n < 10 then [char_of (48 + n)] else decimal (n div 10) @ [char_of (48 + n mod 10)])"

declare decimal.simps [simp del]

definition is_dec :: "char \<Rightarrow> bool" where
  "is_dec c \<longleftrightarrow> 48 \<le> (of_char c :: nat) \<and> (of_char c :: nat) \<le> 57"

section \<open>Data model (shared schema)\<close>

text \<open>
  The records carry the fields the limiter, the store and the service read or write.
  The tenant columns (\<open>userId\<close>, \<open>apiKeyId\<close>, \<open>endpoints\<close>, \<open>updatedAt\<close>,
  \<open>userAgent\<close>, \<open>ipAddress\<close>, the \<open>algorithm\<close> tag of an active limit) are always
  stored as \<open>null\<close> or passed through unread by these paths and are left out. A
  \<open>Date\<close> field is its \<open>getTime()\<close> value. Field names shared by two schema types
  carry a prefix here.
\<close>

datatype limit_status = Active | Warning | Blocked

record RateLimitConfig =
  cfg_id :: int
  cfg_name :: string
  algorithm :: string
  requestLimit :: int
  timeWindow :: string
  clientIdType :: string
  isActive :: bool
  cfg_createdAt :: int

record InsertRateLimitConfig =
  ins_name :: "string option"
  ins_algorithm :: string
  ins_requestLimit :: int
  ins_timeWindow :: string
  ins_clientIdType :: string
  ins_isActive :: "bool option"

record ActiveRateLimit =
  al_id :: int
  al_clientId :: string
  requestCount :: int
  resetTime :: jsnum
  status :: limit_status
  lastRequest :: int

record InsertActiveRateLimit =
  ial_clientId :: string
  ial_requestCount :: "int option"
  ial_resetTime :: jsnum
  ial_status :: limit_status

record RateLimitViolation =
  v_id :: int
  v_clientId :: string
  endpoint :: string
  attempts :: int
  timestamp :: int
  isBlocked :: bool

record InsertRateLimitViolation =
  iv_clientId :: string
  iv_endpoint :: string
  iv_attempts :: int
  iv_isBlocked :: "bool option"

record SystemStats =
  totalRequests :: int
  rateLimitedRequests :: int
  avgResponseTime :: int
  stats_timestamp :: int

text \<open>\<open>Partial<InsertSystemStats>\<close>: only the fields that are present overwrite.\<close>

record PartialSystemStats =
  upd_totalRequests :: "int option"
  upd_rateLimitedRequests :: "int option"
  upd_avgResponseTime :: "int option"

record DashboardStats =
  dash_totalRequests :: int
  rateLimited :: int
  activeClients :: nat
  dash_avgResponseTime :: int

record RateLimitStatus =
  allowed :: bool
  remaining :: int
  rs_resetTime :: jsnum
  retryAfter :: "jsnum option"

section \<open>The in-memory store (server/storage.ts, class MemStorage)\<close>

text \<open>
  A JavaScript \<open>Map\<close> keeps insertion order and \<open>set\<close> on an existing key replaces
  the value in place: an association list with \<open>AList.update\<close>. \<open>get\<close> is
  \<open>map_of\<close>, \<open>size\<close> is the length (keys stay distinct under \<open>AList.update\<close>),
  \<open>clear()\<close> is the empty list.
\<close>

record MemStorage =
  configs :: "(int \<times> RateLimitConfig) list"
  activeLimits :: "(string \<times> ActiveRateLimit) list"
  violations :: "RateLimitViolation list"
  stats :: SystemStats
  currentId :: int

text \<open>The constructor, run at the instant \<open>now\<close>.\<close>

definition new_MemStorage :: "int \<Rightarrow> MemStorage" where
  "new_MemStorage now =
     \<lparr>configs = [(1, \<lparr>cfg_id = 1, cfg_name = ''Default Config'', algorithm = ''fixed-window'',
                      requestLimit = 100, timeWindow = ''1m'', clientIdType = ''ip'',
                      isActive = True, cfg_createdAt = now\<rparr>)],
      activeLimits = [],
      violations = [],
      stats = \<lparr>totalRequests = 0, rateLimitedRequests = 0, avgResponseTime = 0,
               stats_timestamp = now\<rparr>,
      currentId = 1\<rparr>"

definition getRateLimitConfig :: "MemStorage \<Rightarrow> RateLimitConfig option" where
  "getRateLimitConfig st = find isActive (map snd (configs st))"

definition updateRateLimitConfig ::
  "int \<Rightarrow> InsertRateLimitConfig \<Rightarrow> MemStorage \<Rightarrow> RateLimitConfig \<times> MemStorage" where
  "updateRateLimitConfig now configData st =
     (let id = currentId st;
          config = \<lparr>cfg_id = id,
                    cfg_name = (case ins_name configData of None \<Rightarrow> ''Default Config'' | Some n \<Rightarrow> n),
                    algorithm = ins_algorithm configData,
                    requestLimit = ins_requestLimit configData,
                    timeWindow = ins_timeWindow configData,
                    clientIdType = ins_clientIdType configData,
                    isActive = (case ins_isActive configData of None \<Rightarrow> True | Some b \<Rightarrow> b),
                    cfg_createdAt = now\<rparr>;
          deactivated = map (\<lambda>(key, oldConfig). (key, oldConfig\<lparr>isActive := False\<rparr>)) (configs st)
      in (config,
          st\<lparr>currentId := id + 1,
             activeLimits := [],
             configs := AList.update id config deactivated\<rparr>))"

definition getActiveRateLimit :: "MemStorage \<Rightarrow> string \<Rightarrow> ActiveRateLimit option" where
  "getActiveRateLimit st clientId = map_of (activeLimits st) clientId"

definition upsertActiveRateLimit ::
  "int \<Rightarrow> InsertActiveRateLimit \<Rightarrow> MemStorage \<Rightarrow> ActiveRateLimit \<times> MemStorage" where
  "upsertActiveRateLimit now limitData st =
     (let existing = map_of (activeLimits st) (ial_clientId limitData);
          id = (case existing of Some e \<Rightarrow> al_id e | None \<Rightarrow> currentId st);
          nextId = (case existing of Some e \<Rightarrow> currentId st | None \<Rightarrow> currentId st + 1);
          limit = \<lparr>al_id = id,
                   al_clientId = ial_clientId limitData,
                   requestCount = (case ial_requestCount limitData of None \<Rightarrow> 0 | Some c \<Rightarrow> c),
                   resetTime = ial_resetTime limitData,
                   status = ial_status limitData,
                   lastRequest = now\<rparr>
      in (limit,
          st\<lparr>currentId := nextId,
             activeLimits := AList.update (ial_clientId limitData) limit (activeLimits st)\<rparr>))"

definition deleteActiveRateLimit :: "string \<Rightarrow> MemStorage \<Rightarrow> MemStorage" where
  "deleteActiveRateLimit clientId st = st\<lparr>activeLimits := AList.delete clientId (activeLimits st)\<rparr>"

text \<open>\<open>unshift\<close> puts the new record first; \<open>slice(0, 100)\<close> keeps the first hundred.\<close>

definition createViolation ::
  "int \<Rightarrow> InsertRateLimitViolation \<Rightarrow> MemStorage \<Rightarrow> RateLimitViolation \<times> MemStorage" where
  "createViolation now violationData st =
     (let id = currentId st;
          violation = \<lparr>v_id = id,
                       v_clientId = iv_clientId violationData,
                       endpoint = iv_endpoint violationData,
                       attempts = iv_attempts violationData,
                       timestamp = now,
                       isBlocked = (case iv_isBlocked violationData of None \<Rightarrow> False | Some b \<Rightarrow> b)\<rparr>;
          unshifted = violation # violations st;
          kept = (if length unshifted > 100 then take 100 unshifted else unshifted)
      in (violation, st\<lparr>currentId := id + 1, violations := kept\<rparr>))"

definition getRecentViolations :: "nat \<Rightarrow> MemStorage \<Rightarrow> RateLimitViolation list" where
  "getRecentViolations limit st = take limit (violations st)"

definition blockClient :: "string \<Rightarrow> MemStorage \<Rightarrow> MemStorage" where
  "blockClient clientId st =
     (let limits = (case map_of (activeLimits st) clientId of
                      None \<Rightarrow> activeLimits st
                    | Some activeLimit \<Rightarrow>
                        AList.update clientId (activeLimit\<lparr>status := Blocked\<rparr>) (activeLimits st))
      in st\<lparr>activeLimits := limits,
            violations := map (\<lambda>violation. if v_clientId violation = clientId
                                             then violation\<lparr>isBlocked := True\<rparr> else violation)
                              (violations st)\<rparr>)"

definition getSystemStats :: "MemStorage \<Rightarrow> DashboardStats" where
  "getSystemStats st =
     \<lparr>dash_totalRequests = totalRequests (stats st),
      rateLimited = rateLimitedRequests (stats st),
      activeClients = length (activeLimits st),
      dash_avgResponseTime = avgResponseTime (stats st)\<rparr>"

definition updateSystemStats :: "int \<Rightarrow> PartialSystemStats \<Rightarrow> MemStorage \<Rightarrow> MemStorage" where
  "updateSystemStats now statsData st =
     st\<lparr>stats :=
          \<lparr>totalRequests = (case upd_totalRequests statsData of None \<Rightarrow> totalRequests (stats st) | Some v \<Rightarrow> v),
           rateLimitedRequests = (case upd_rateLimitedRequests statsData of
                                    None \<Rightarrow> rateLimitedRequests (stats st) | Some v \<Rightarrow> v),
           avgResponseTime = (case upd_avgResponseTime statsData of
                                None \<Rightarrow> avgResponseTime (stats st) | Some v \<Rightarrow> v),
           stats_timestamp = now\<rparr>\<rparr>"

section \<open>The three limiters (server/rate-limiter.ts)\<close>

text \<open>
  Each \<open>checkLimit\<close> takes the clock reading \<open>now\<close> of the call (every
  \<open>new Date()\<close> and \<open>Date.now()\<close> inside one call is the same instant here) and
  returns the decision together with the new state. The thresholds
  \<open>newCount >= requestLimit * 0.8\<close> and \<open>remaining <= requestLimit * 0.2\<close> are
  written over the integers as \<open>5 * newCount \<ge> 4 * requestLimit\<close> and
  \<open>5 * remaining \<le> requestLimit\<close>.
\<close>

definition TokenBucket_checkLimit ::
  "int \<Rightarrow> string \<Rightarrow> RateLimitConfig \<Rightarrow> MemStorage \<Rightarrow> RateLimitStatus \<times> MemStorage" where
  "TokenBucket_checkLimit now clientId config st =
     (let activeLimit = getActiveRateLimit st clientId;
          windowMs = parseTimeWindow (timeWindow config);
          fresh =
            (let resetTime = newDate (jadd (Num now) windowMs)
             in (\<lparr>allowed = True, remaining = requestLimit config - 1,
                  rs_resetTime = resetTime, retryAfter = None\<rparr>,
                 snd (upsertActiveRateLimit now
                        \<lparr>ial_clientId = clientId, ial_requestCount = Some 1,
                         ial_resetTime = resetTime, ial_status = Active\<rparr> st)))
      in case activeLimit of
           None \<Rightarrow> fresh
         | Some al \<Rightarrow>
             if jge (Num now) (resetTime al) then fresh
             else if requestCount al \<ge> requestLimit config then
               (\<lparr>allowed = False, remaining = 0, rs_resetTime = resetTime al,
                 retryAfter = Some (ceil_div_1000 (jsub (resetTime al) (Num now)))\<rparr>, st)
             else
               (let newCount = requestCount al + 1;
                    status = (if 5 * newCount \<ge> 4 * requestLimit config then Warning else Active)
                in (\<lparr>allowed = True, remaining = requestLimit config - newCount,
                     rs_resetTime = resetTime al, retryAfter = None\<rparr>,
                    snd (upsertActiveRateLimit now
                           \<lparr>ial_clientId = clientId, ial_requestCount = Some newCount,
                            ial_resetTime = resetTime al, ial_status = status\<rparr> st))))"

text \<open>
  The sliding-window limiter keeps its own \<open>requestTimes\<close> map beside the store, so the
  state of the whole engine is the store together with that map.
\<close>

record Engine =
  storage :: MemStorage
  requestTimes :: "string \<rightharpoonup> int list"

text \<open>
  \<open>times[0]\<close> of an empty array is \<open>undefined\<close>, which arithmetic turns into
  \<open>NaN\<close>.
\<close>

definition SlidingWindow_checkLimit ::
  "int \<Rightarrow> string \<Rightarrow> RateLimitConfig \<Rightarrow> Engine \<Rightarrow> RateLimitStatus \<times> Engine" where
  "SlidingWindow_checkLimit now clientId config e =
     (let windowMs = parseTimeWindow (timeWindow config);
          windowStart = jsub (Num now) windowMs;
          stored = (case requestTimes e clientId of None \<Rightarrow> [] | Some ts \<Rightarrow> ts);
          times = filter (\<lambda>time. jgt (Num time) windowStart) stored
      in if int (length times) \<ge> requestLimit config then
           (let oldest = (case times of [] \<Rightarrow> NaN | t # _ \<Rightarrow> Num t);
                retry = ceil_div_1000 (jsub oldest windowStart)
            in (\<lparr>allowed = False, remaining = 0, rs_resetTime = jadd oldest windowMs,
                 retryAfter = Some retry\<rparr>,
                e\<lparr>storage := snd (upsertActiveRateLimit now
                                     \<lparr>ial_clientId = clientId,
                                      ial_requestCount = Some (int (length times) + 1),
                                      ial_resetTime = newDate (jadd oldest windowMs),
                                      ial_status = Blocked\<rparr> (storage e))\<rparr>))
         else
           (let pushed = times @ [now];
                rem = requestLimit config - int (length pushed);
                status = (if 5 * rem \<le> requestLimit config then Warning else Active)
            in (\<lparr>allowed = True, remaining = rem, rs_resetTime = jadd (Num now) windowMs,
                 retryAfter = None\<rparr>,
                e\<lparr>requestTimes := (requestTimes e)(clientId \<mapsto> pushed),
                  storage := snd (upsertActiveRateLimit now
                                    \<lparr>ial_clientId = clientId,
                                     ial_requestCount = Some (int (length pushed)),
                                     ial_resetTime = newDate (jadd (Num now) windowMs),
                                     ial_status = status\<rparr> (storage e))\<rparr>)))"

definition FixedWindow_checkLimit ::
  "int \<Rightarrow> string \<Rightarrow> RateLimitConfig \<Rightarrow> MemStorage \<Rightarrow> RateLimitStatus \<times> MemStorage" where
  "FixedWindow_checkLimit now clientId config st =
     (let windowMs = parseTimeWindow (timeWindow config);
          windowStart = newDate (floor_to_multiple (Num now) windowMs);
          windowEnd = newDate (jadd windowStart windowMs);
          activeLimit = getActiveRateLimit st clientId;
          fresh =
            (\<lparr>allowed = True, remaining = requestLimit config - 1,
              rs_resetTime = windowEnd, retryAfter = None\<rparr>,
             snd (upsertActiveRateLimit now
                    \<lparr>ial_clientId = clientId, ial_requestCount = Some 1,
                     ial_resetTime = windowEnd, ial_status = Active\<rparr> st))
      in case activeLimit of
           None \<Rightarrow> fresh
         | Some al \<Rightarrow>
             if jle (resetTime al) (Num now) then fresh
             else if requestCount al \<ge> requestLimit config then
               (\<lparr>allowed = False, remaining = 0, rs_resetTime = resetTime al,
                 retryAfter = Some (ceil_div_1000 (jsub (resetTime al) (Num now)))\<rparr>,
                snd (upsertActiveRateLimit now
                       \<lparr>ial_clientId = clientId, ial_requestCount = Some (requestCount al + 1),
                        ial_resetTime = resetTime al, ial_status = Blocked\<rparr> st))
             else
               (let newCount = requestCount al + 1;
                    status = (if 5 * newCount \<ge> 4 * requestLimit config then Warning else Active)
                in (\<lparr>allowed = True, remaining = requestLimit config - newCount,
                     rs_resetTime = resetTime al, retryAfter = None\<rparr>,
                    snd (upsertActiveRateLimit now
                           \<lparr>ial_clientId = clientId, ial_requestCount = Some newCount,
                            ial_resetTime = resetTime al, ial_status = status\<rparr> st))))"

section \<open>The service (class RateLimiterService)\<close>

datatype limiter = TokenBucketLimiter | SlidingWindowLimiter | FixedWindowLimiter

definition algorithms :: "string \<Rightarrow> limiter option" where
  "algorithms name =
     (if name = ''token-bucket'' then Some TokenBucketLimiter
      else if name = ''sliding-window'' then Some SlidingWindowLimiter
      else if name = ''fixed-window'' then Some FixedWindowLimiter
      else None)"

fun checkLimit ::
  "limiter \<Rightarrow> int \<Rightarrow> string \<Rightarrow> RateLimitConfig \<Rightarrow> Engine \<Rightarrow> RateLimitStatus \<times> Engine" where
  "checkLimit TokenBucketLimiter now clientId config e =
     (let (r, st) = TokenBucket_checkLimit now clientId config (storage e) in (r, e\<lparr>storage := st\<rparr>))"
| "checkLimit SlidingWindowLimiter now clientId config e =
     SlidingWindow_checkLimit now clientId config e"
| "checkLimit FixedWindowLimiter now clientId config e =
     (let (r, st) = FixedWindow_checkLimit now clientId config (storage e) in (r, e\<lparr>storage := st\<rparr>))"

text \<open>
  \<open>checkRateLimit\<close> throws when no configuration is active or the configured
  algorithm is not in the table; both happen before any state is touched.
  \<open>record_outcome\<close> is the part of its body after the limiter has returned
  (rate-limiter.ts lines 258-276): the total is bumped, and on a denial the violation is
  logged and the rate-limited counter bumped.
\<close>

datatype error = NoConfiguration | UnknownAlgorithm string

definition record_outcome :: "int \<Rightarrow> string \<Rightarrow> string \<Rightarrow> bool \<Rightarrow> MemStorage \<Rightarrow> MemStorage" where
  "record_outcome now clientId ep ok st =
     (let st1 = updateSystemStats now
                  \<lparr>upd_totalRequests = Some (dash_totalRequests (getSystemStats st) + 1),
                   upd_rateLimitedRequests = None, upd_avgResponseTime = None\<rparr> st
      in if \<not> ok then
           (let st2 = snd (createViolation now
                             \<lparr>iv_clientId = clientId, iv_endpoint = ep, iv_attempts = 1,
                              iv_isBlocked = Some False\<rparr> st1)
            in updateSystemStats now
                 \<lparr>upd_totalRequests = None,
                  upd_rateLimitedRequests = Some (rateLimited (getSystemStats st2) + 1),
                  upd_avgResponseTime = None\<rparr> st2)
         else st1)"

definition checkRateLimit ::
  "int \<Rightarrow> string \<Rightarrow> string \<Rightarrow> Engine \<Rightarrow> error + RateLimitStatus \<times> Engine" where
  "checkRateLimit now clientId ep e =
     (case getRateLimitConfig (storage e) of
        None \<Rightarrow> Inl NoConfiguration
      | Some config \<Rightarrow>
          (case algorithms (algorithm config) of
             None \<Rightarrow> Inl (UnknownAlgorithm (algorithm config))
           | Some alg \<Rightarrow>
               (let (result, e1) = checkLimit alg now clientId config e
                in Inr (result,
                        e1\<lparr>storage := record_outcome now clientId ep (allowed result) (storage e1)\<rparr>))))"

text \<open>The engine as the module creates it: a fresh store and an empty \<open>requestTimes\<close>.\<close>

definition new_Engine :: "int \<Rightarrow> Engine" where
  "new_Engine now = \<lparr>storage = new_MemStorage now, requestTimes = Map.empty\<rparr>"

text \<open>A configuration update as the route handler does it: on the store only.\<close>

definition engine_updateRateLimitConfig :: "int \<Rightarrow> InsertRateLimitConfig \<Rightarrow> Engine \<Rightarrow> Engine" where
  "engine_updateRateLimitConfig now configData e =
     e\<lparr>storage := snd (updateRateLimitConfig now configData (storage e))\<rparr>"

section \<open>Client identity (RateLimiterService.getClientId)\<close>

text \<open>
  The request fields \<open>getClientId\<close> reads: \<open>req.ip\<close>, the header table,
  \<open>req.connection.remoteAddress\<close> and \<open>req.user?.id\<close>; \<open>None\<close> is
  \<open>undefined\<close>. \<open>a || b\<close> yields \<open>a\<close> when it is truthy, that is a non-empty
  string.
\<close>

record Request =
  ip :: "string option"
  headers :: "string \<rightharpoonup> string"
  remoteAddress :: "string option"
  user_id :: "string option"

definition truthy :: "string option \<Rightarrow> bool" where
  "truthy v = (case v of None \<Rightarrow> False | Some s \<Rightarrow> s \<noteq> [])"

definition or_else :: "string option \<Rightarrow> string option \<Rightarrow> string option" where
  "or_else a b = (if truthy a then a else b)"

definition or_literal :: "string option \<Rightarrow> string \<Rightarrow> string" where
  "or_literal a d = (case a of None \<Rightarrow> d | Some s \<Rightarrow> if s \<noteq> [] then s else d)"

definition trim :: "string \<Rightarrow> string" where
  "trim s = rev (dropWhile is_ws (rev (dropWhile is_ws s)))"

text \<open>\<open>s.split(',')[0]\<close>: the text before the first comma.\<close>

definition split_comma_first :: "string \<Rightarrow> string" where
  "split_comma_first s = takeWhile (\<lambda>c. c \<noteq> CHR '','') s"

text \<open>\<open>s.replace(pat, '')\<close> with a string pattern: the first occurrence is removed.\<close>

fun remove_first :: "string \<Rightarrow> string \<Rightarrow> string" where
  "remove_first pat [] = []"
| "remove_first pat (c # r) =
     (if take (length pat) (c # r) = pat then drop (length pat) (c # r)
      else c # remove_first pat r)"

definition getClientId :: "Request \<Rightarrow> string \<Rightarrow> string" where
  "getClientId req idType =
     (if idType = ''ip'' then
        or_literal
          (or_else (ip req)
            (or_else (map_option (trim \<circ> split_comma_first) (headers req ''x-forwarded-for''))
              (or_else (headers req ''x-real-ip'') (remoteAddress req))))
          ''127.0.0.1''
      else if idType = ''api-key'' then
        or_literal
          (or_else (headers req ''x-api-key'')
            (map_option (remove_first ''Bearer '') (headers req ''authorization'')))
          ''anonymous-api''
      else if idType = ''user-id'' then
        or_literal
          (or_else (user_id req)
            (or_else (headers req ''x-user-id'') (headers req ''user-id'')))
          ''anonymous-user''
      else or_literal (ip req) ''127.0.0.1'')"

section \<open>Concrete inputs used to exercise the model\<close>

definition policy :: "string \<Rightarrow> int \<Rightarrow> string \<Rightarrow> InsertRateLimitConfig" where
  "policy alg limit window =
     \<lparr>ins_name = None, ins_algorithm = alg, ins_requestLimit = limit, ins_timeWindow = window,
      ins_clientIdType = ''ip'', ins_isActive = None\<rparr>"

definition example_config :: "string \<Rightarrow> RateLimitConfig" where
  "example_config alg =
     \<lparr>cfg_id = 1, cfg_name = ''Default Config'', algorithm = alg, requestLimit = 3,
      timeWindow = ''30s'', clientIdType = ''ip'', isActive = True, cfg_createdAt = 0\<rparr>"

definition one_second_config :: RateLimitConfig where
  "one_second_config = (example_config ''fixed-window'')\<lparr>timeWindow := ''1s''\<rparr>"

definition forwarded_request :: Request where
  "forwarded_request =
     \<lparr>ip = None, headers = [''x-forwarded-for'' \<mapsto> ''10.0.0.1, 10.0.0.2''],
      remoteAddress = None, user_id = None\<rparr>"

definition direct_request :: Request where
  "direct_request =
     \<lparr>ip = Some ''192.168.1.20'', headers = [''x-forwarded-for'' \<mapsto> ''10.0.0.1, 10.0.0.2''],
      remoteAddress = Some ''192.168.1.20'', user_id = None\<rparr>"


text \<open>
  A run of the service: what a call leaves behind (a call that throws changes nothing)
  and the decision it returns.
\<close>

definition next_engine :: "Engine \<Rightarrow> error + RateLimitStatus \<times> Engine \<Rightarrow> Engine" where
  "next_engine e out = (case out of Inl _ \<Rightarrow> e | Inr (_, e') \<Rightarrow> e')"

definition decision :: "error + RateLimitStatus \<times> Engine \<Rightarrow> RateLimitStatus option" where
  "decision out = (case out of Inl _ \<Rightarrow> None | Inr (r, _) \<Rightarrow> Some r)"

text \<open>One client calling the service at the given instants, in order.\<close>

fun serve :: "Engine \<Rightarrow> int list \<Rightarrow> RateLimitStatus option list" where
  "serve e [] = []"
| "serve e (t # ts) =
     (let out = checkRateLimit t ''10.0.0.7'' ''/api/protected/test'' e
      in decision out # serve (next_engine e out) ts)"


text \<open>
  A sliding-window policy of one request per hour is installed, the client is allowed at
  1000 ms and denied at 2000 ms, and the same policy is installed again at 2500 ms.
\<close>

definition sliding_engine_0 :: Engine where
  "sliding_engine_0 =
     engine_updateRateLimitConfig 0 (policy ''sliding-window'' 1 ''1h'') (new_Engine 0)"

definition sliding_engine_1 :: Engine where
  "sliding_engine_1 =
     next_engine sliding_engine_0
       (checkRateLimit 1000 ''10.0.0.7'' ''/api/protected/test'' sliding_engine_0)"

definition sliding_engine_2 :: Engine where
  "sliding_engine_2 =
     next_engine sliding_engine_1
       (checkRateLimit 2000 ''10.0.0.7'' ''/api/protected/test'' sliding_engine_1)"

definition sliding_engine_3 :: Engine where
  "sliding_engine_3 =
     engine_updateRateLimitConfig 2500 (policy ''sliding-window'' 1 ''1h'') sliding_engine_2"

text \<open>
  The violation log is most recent first when, along the list, ids (allocated from the
  store's counter) and timestamps do not increase.
\<close>

definition recent_first :: "RateLimitViolation list \<Rightarrow> bool" where
  "recent_first vs = sorted_wrt (\<lambda>a b. v_id b < v_id a \<and> timestamp b \<le> timestamp a) vs"

definition logged :: "int \<Rightarrow> RateLimitViolation" where
  "logged i = \<lparr>v_id = i, v_clientId = ''10.0.0.7'', endpoint = ''/api/protected/test'',
               attempts = 1, timestamp = 1000 + i, isBlocked = False\<rparr>"

definition denied_request :: InsertRateLimitViolation where
  "denied_request =
     \<lparr>iv_clientId = ''10.0.0.7'', iv_endpoint = ''/api/protected/test'', iv_attempts = 1,
      iv_isBlocked = Some False\<rparr>"

definition full_log_store :: MemStorage where
  "full_log_store =
     (new_MemStorage 0)\<lparr>violations := map (\<lambda>n. logged (int n)) (rev [1..<101]), currentId := 101\<rparr>"

definition exhausted_limit :: ActiveRateLimit where
  "exhausted_limit =
     \<lparr>al_id = 2, al_clientId = ''10.0.0.7'', requestCount = 3, resetTime = Num 30000,
      status = Warning, lastRequest = 1200\<rparr>"

definition exhausted_store :: MemStorage where
  "exhausted_store = (new_MemStorage 0)\<lparr>activeLimits := [(''10.0.0.7'', exhausted_limit)], currentId := 3\<rparr>"

section \<open>Properties of the parser\<close>

lemma digit_val_decimal_char: "d < 10 \<Longrightarrow> digit_val (char_of (48 + d)) = Some d"
  by (simp add: digit_val_def Let_def)

lemma is_radix_digit_decimal_char: "d < 10 \<Longrightarrow> is_radix_digit 10 (char_of (48 + (d::nat)))"
  by (simp add: is_radix_digit_def digit_val_decimal_char)

lemma is_dec_radix: "is_dec c \<Longrightarrow> is_radix_digit 10 c"
  by (auto simp: is_dec_def is_radix_digit_def digit_val_def Let_def)

lemma is_dec_not_ws: "is_dec c \<Longrightarrow> \<not> is_ws c"
  by (auto simp: is_dec_def is_ws_def)

lemma is_dec_not_sign:
  "is_dec c \<Longrightarrow> c \<noteq> CHR ''+'' \<and> c \<noteq> CHR ''-'' \<and> c \<noteq> CHR ''x'' \<and> c \<noteq> CHR ''X''"
  by (auto simp: is_dec_def)

text \<open>On a non-empty string of decimal digits \<open>parseInt\<close> reads the whole string.\<close>

lemma parseInt_digits:
  assumes "ds \<noteq> []" and "\<forall>c \<in> set ds. is_dec c"
  shows "parseInt ds = Num (int (digits_value 10 ds))"
proof -
  obtain c r where ds: "ds = c # r" using assms(1) by (cases ds) auto
  have c: "is_dec c" using assms(2) ds by simp
  have dw: "dropWhile is_ws ds = ds" using c ds is_dec_not_ws by simp
  have nohex: "\<not> (case ds of a # b # _ \<Rightarrow> a = CHR ''0'' \<and> (b = CHR ''x'' \<or> b = CHR ''X'') | _ \<Rightarrow> False)"
    using assms(2) ds is_dec_not_sign by (auto split: list.splits)
  have tw: "takeWhile (is_radix_digit 10) ds = ds"
    using assms(2) is_dec_radix by (simp add: takeWhile_eq_all_conv)
  show ?thesis
    unfolding parseInt_def Let_def dw
    using c is_dec_not_sign[OF c] nohex tw assms(1) by (simp add: ds)
qed

lemma decimal_is_dec: "\<forall>c \<in> set (decimal n). is_dec c"
proof (induction n rule: decimal.induct)
  case (1 n)
  show ?case
  proof (cases "n < 10")
    case True
    then show ?thesis by (subst decimal.simps) (simp add: is_dec_def)
  next
    case False
    have "n mod 10 < 10" by simp
    then have "is_dec (char_of (48 + n mod 10))" by (simp add: is_dec_def)
    with 1 False show ?thesis by (subst decimal.simps) auto
  qed
qed

lemma decimal_nonempty: "decimal n \<noteq> []"
  by (subst decimal.simps) simp

lemma digits_value_snoc: "digits_value R (Z @ [c]) = digits_value R Z * R + the (digit_val c)"
  by (simp add: digits_value_def)

lemma digits_value_decimal: "digits_value 10 (decimal n) = n"
proof (induction n rule: decimal.induct)
  case (1 n)
  show ?case
  proof (cases "n < 10")
    case True
    then show ?thesis by (subst decimal.simps) (simp add: digits_value_def digit_val_decimal_char)
  next
    case False
    have "n mod 10 < 10" by simp
    then have "digit_val (char_of (48 + n mod 10)) = Some (n mod 10)" by (rule digit_val_decimal_char)
    with 1 False show ?thesis by (subst decimal.simps) (simp add: digits_value_snoc)
  qed
qed

lemma parseInt_decimal: "parseInt (decimal n) = Num (int n)"
  using parseInt_digits[OF decimal_nonempty decimal_is_dec] by (simp add: digits_value_decimal)

text \<open>
  The part of the parser's contract that holds: a decimal numeral followed by a unit is
  scaled by the unit, and a string whose last character is no unit gives 60000.
\<close>

lemma parseTimeWindow_decimal:
  "parseTimeWindow (decimal n @ ''s'') = Num (int n * 1000)"
  "parseTimeWindow (decimal n @ ''m'') = Num (int n * 60000)"
  "parseTimeWindow (decimal n @ ''h'') = Num (int n * 3600000)"
  "parseTimeWindow (decimal n @ ''d'') = Num (int n * 86400000)"
  by (simp_all add: parseTimeWindow_def parseInt_decimal)

lemma parseTimeWindow_digits:
  assumes "ds \<noteq> []" and "\<forall>c \<in> set ds. is_dec c"
  shows "parseTimeWindow (ds @ ''s'') = Num (int (digits_value 10 ds) * 1000)"
    and "parseTimeWindow (ds @ ''m'') = Num (int (digits_value 10 ds) * 60000)"
    and "parseTimeWindow (ds @ ''h'') = Num (int (digits_value 10 ds) * 3600000)"
    and "parseTimeWindow (ds @ ''d'') = Num (int (digits_value 10 ds) * 86400000)"
  by (simp_all add: parseTimeWindow_def parseInt_digits[OF assms])

lemma parseTimeWindow_unknown_unit:
  assumes "tw = [] \<or> last tw \<notin> {CHR ''s'', CHR ''m'', CHR ''h'', CHR ''d''}"
  shows "parseTimeWindow tw = Num 60000"
  using assms by (auto simp: parseTimeWindow_def)

lemma parseTimeWindow_no_digits:
  assumes "tw \<noteq> []" and "last tw \<in> {CHR ''s'', CHR ''m'', CHR ''h'', CHR ''d''}"
    and "parseInt (butlast tw) = NaN"
  shows "parseTimeWindow tw = NaN"
  using assms by (auto simp: parseTimeWindow_def)

text \<open>
  C7. The claim: a numeral with unit s, m, h or d is scaled to milliseconds, and every
  unparsable \<open>timeWindow\<close> gives the default 60000. The default branch of the
  \<open>switch\<close> only covers an unknown unit: \<open>parseInt\<close> of a value with no leading
  digits is \<open>NaN\<close>, which a known unit multiplies into \<open>NaN\<close>. The string
  \<open>xs\<close> (value \<open>x\<close>, unit \<open>s\<close>) is unparsable and does not give 60000.
\<close>

theorem parseTimeWindow_non_numeric_value: "parseTimeWindow ''xs'' = NaN"
  by (simp add: parseTimeWindow_def parseInt_def is_ws_def is_radix_digit_def digit_val_def)

section \<open>Properties of the store\<close>

lemma ceil_div_1000_ceiling: "ceil_div_1000 (Num x) = Num \<lceil>real_of_int x / 1000\<rceil>"
proof -
  have "\<lceil>real_of_int x / real_of_int 1000\<rceil> = - (- x div 1000)"
    by (rule ceiling_divide_eq_div)
  then show ?thesis by simp
qed

lemma map_of_upsert:
  "getActiveRateLimit (snd (upsertActiveRateLimit now d st)) c =
     (if c = ial_clientId d then Some (fst (upsertActiveRateLimit now d st))
      else getActiveRateLimit st c)"
  by (simp add: getActiveRateLimit_def upsertActiveRateLimit_def Let_def update_conv')

lemma upsert_keeps_log:
  "violations (snd (upsertActiveRateLimit now d st)) = violations st"
  "stats (snd (upsertActiveRateLimit now d st)) = stats st"
  "configs (snd (upsertActiveRateLimit now d st)) = configs st"
  by (simp_all add: upsertActiveRateLimit_def Let_def)

section \<open>Token bucket\<close>

text \<open>
  C5. Token-bucket \<open>checkLimit\<close>: when the client's stored state has
  \<open>now < resetTime\<close> and \<open>requestCount \<ge> requestLimit\<close>, the call denies with
  \<open>remaining = 0\<close> and \<open>retryAfter = ceil((resetTime - now) / 1000)\<close>, and the
  store it returns is the store it was given: nothing is written on a denial.
\<close>

theorem TokenBucket_denial_leaves_state:
  assumes "getActiveRateLimit st clientId = Some al"
    and "resetTime al = Num rt" and "now < rt"
    and "requestLimit config \<le> requestCount al"
  shows "TokenBucket_checkLimit now clientId config st =
           (\<lparr>allowed = False, remaining = 0, rs_resetTime = Num rt,
             retryAfter = Some (Num \<lceil>real_of_int (rt - now) / 1000\<rceil>)\<rparr>, st)"
proof -
  have "TokenBucket_checkLimit now clientId config st =
           (\<lparr>allowed = False, remaining = 0, rs_resetTime = Num rt,
             retryAfter = Some (ceil_div_1000 (Num (rt - now)))\<rparr>, st)"
    using assms by (simp add: TokenBucket_checkLimit_def Let_def)
  then show ?thesis by (simp only: ceil_div_1000_ceiling)
qed

theorem TokenBucket_denial_leaves_state_witness:
  "TokenBucket_checkLimit 1300 ''10.0.0.7'' (example_config ''token-bucket'') exhausted_store =
     (\<lparr>allowed = False, remaining = 0, rs_resetTime = Num 30000, retryAfter = Some (Num 29)\<rparr>,
      exhausted_store)"
  using TokenBucket_denial_leaves_state
          [of exhausted_store "''10.0.0.7''" exhausted_limit 30000 1300 "example_config ''token-bucket''"]
  by (simp add: getActiveRateLimit_def exhausted_store_def exhausted_limit_def example_config_def)

section \<open>Fixed window\<close>



text \<open>
  C2. The claim: with no state or an expired one, fixed-window \<open>checkLimit\<close> stores
  \<open>requestCount = 1\<close> and \<open>resetTime = now + windowMs\<close> and allows with
  \<open>remaining = requestLimit - 1\<close>. The stored \<open>resetTime\<close> is \<open>windowEnd\<close>,
  the end of the window that \<open>Math.floor(now / windowMs) * windowMs\<close> starts: a
  first request at 1500 ms under a 1 s window is given 2000, not 2500.
\<close>

theorem FixedWindow_reset_not_arrival_anchored:
  "getActiveRateLimit (new_MemStorage 0) ''10.0.0.7'' = None \<and>
   map_option resetTime
     (getActiveRateLimit (snd (FixedWindow_checkLimit 1500 ''10.0.0.7'' one_second_config (new_MemStorage 0)))
        ''10.0.0.7'') = Some (Num 2000) \<and>
   jadd (Num 1500) (parseTimeWindow (timeWindow one_second_config)) = Num 2500"
  by (simp add: FixedWindow_checkLimit_def Let_def map_of_upsert one_second_config_def example_config_def
        parseTimeWindow_def parseInt_def is_ws_def is_radix_digit_def digit_val_def digits_value_def
        getActiveRateLimit_def new_MemStorage_def upsertActiveRateLimit_def)

section \<open>Fixed window: a new window\<close>

lemma window_end_bounds:
  fixes now w :: int
  assumes "0 < w"
  shows "now < (now div w) * w + w" and "(now div w) * w + w \<le> now + w" and "(0 \<le> now \<longrightarrow> 0 \<le> (now div w) * w)"
proof -
  have m: "now = (now div w) * w + now mod w" by simp
  have "0 \<le> now mod w" "now mod w < w" using assms by simp_all
  with m show "now < (now div w) * w + w" "(now div w) * w + w \<le> now + w" by linarith+
  show "0 \<le> now \<longrightarrow> 0 \<le> (now div w) * w"
    using assms by (simp add: pos_imp_zdiv_nonneg_iff)
qed

text \<open>
  C2 as the code has it: with no state for the client, or a stored \<open>resetTime\<close> that
  has passed, and a positive window length (time values within the \<open>Date\<close> range),
  the call allows with \<open>remaining = requestLimit - 1\<close> and stores
  \<open>requestCount = 1\<close>, status active and
  \<open>resetTime = floor(now / windowMs) * windowMs + windowMs\<close>, the next multiple of
  the window length after \<open>now\<close>: later than \<open>now\<close> and at most
  \<open>now + windowMs\<close>.
\<close>

theorem FixedWindow_new_window:
  assumes "getActiveRateLimit st clientId = None \<or>
           (\<exists>al r. getActiveRateLimit st clientId = Some al \<and> resetTime al = Num r \<and> r \<le> now)"
    and "parseTimeWindow (timeWindow config) = Num w" and "0 < w"
    and "0 \<le> now" and "now + w \<le> 8640000000000000"
  shows "fst (FixedWindow_checkLimit now clientId config st) =
           \<lparr>allowed = True, remaining = requestLimit config - 1,
            rs_resetTime = Num ((now div w) * w + w), retryAfter = None\<rparr> \<and>
         map_option (\<lambda>a. (requestCount a, resetTime a, status a))
           (getActiveRateLimit (snd (FixedWindow_checkLimit now clientId config st)) clientId) =
           Some (1, Num ((now div w) * w + w), Active) \<and>
         now < (now div w) * w + w \<and> (now div w) * w + w \<le> now + w"
proof -
  note b = window_end_bounds[OF assms(3), of now]
  have lo: "0 \<le> (now div w) * w" using b(3) assms(4) by simp
  have s: "newDate (floor_to_multiple (Num now) (Num w)) = Num ((now div w) * w)"
    using assms(3,5) lo b(2) by simp
  have e: "newDate (jadd (Num ((now div w) * w)) (Num w)) = Num ((now div w) * w + w)"
    using assms(3,5) lo b(2) by simp
  have r: "fst (FixedWindow_checkLimit now clientId config st) =
           \<lparr>allowed = True, remaining = requestLimit config - 1,
            rs_resetTime = Num ((now div w) * w + w), retryAfter = None\<rparr>"
    using assms(1)
    by (auto simp: FixedWindow_checkLimit_def Let_def assms(2) s e
             simp del: newDate.simps floor_to_multiple.simps jadd.simps)
  have u: "map_option (\<lambda>a. (requestCount a, resetTime a, status a))
           (getActiveRateLimit (snd (FixedWindow_checkLimit now clientId config st)) clientId) =
           Some (1, Num ((now div w) * w + w), Active)"
    using assms(1)
    by (auto simp: FixedWindow_checkLimit_def Let_def assms(2) s e map_of_upsert
             simp del: newDate.simps floor_to_multiple.simps jadd.simps)
       (simp_all add: upsertActiveRateLimit_def Let_def)
  from r u b(1,2) show ?thesis by simp
qed

theorem FixedWindow_new_window_witness:
  "fst (FixedWindow_checkLimit 1500 ''10.0.0.7'' one_second_config (new_MemStorage 0)) =
     \<lparr>allowed = True, remaining = 2, rs_resetTime = Num 2000, retryAfter = None\<rparr> \<and>
   map_option (\<lambda>a. (requestCount a, resetTime a, status a))
     (getActiveRateLimit (snd (FixedWindow_checkLimit 1500 ''10.0.0.7'' one_second_config (new_MemStorage 0)))
        ''10.0.0.7'') = Some (1, Num 2000, Active)"
proof -
  have h1: "getActiveRateLimit (new_MemStorage 0) ''10.0.0.7'' = None \<or>
           (\<exists>al r. getActiveRateLimit (new_MemStorage 0) ''10.0.0.7'' = Some al \<and> resetTime al = Num r \<and> r \<le> 1500)"
    by (simp add: getActiveRateLimit_def new_MemStorage_def)
  have h2: "parseTimeWindow (timeWindow one_second_config) = Num 1000"
    by (simp add: one_second_config_def example_config_def parseTimeWindow_def parseInt_def is_ws_def
          is_radix_digit_def digit_val_def digits_value_def)
  show ?thesis
    using FixedWindow_new_window[OF h1 h2]
    by (simp add: one_second_config_def example_config_def)
qed

section \<open>Client identity\<close>

text \<open>
  C10. The claim: an unrecognized \<open>clientIdType\<close> resolves the key by the same chain
  as \<open>ip\<close> (peer address, forwarded-for, real-ip, remote address, 127.0.0.1). The
  \<open>default\<close> branch is \<open>req.ip || '127.0.0.1'\<close>: for a request with no peer
  address and a forwarded-for header the two modes differ.
\<close>

theorem unknown_mode_skips_forwarded_header:
  "getClientId forwarded_request ''ip'' = ''10.0.0.1'' \<and>
   getClientId forwarded_request ''session'' = ''127.0.0.1''"
  by (simp add: getClientId_def forwarded_request_def or_literal_def or_else_def truthy_def trim_def
        split_comma_first_def is_ws_def)

text \<open>
  C10 as the code has it: an unrecognized \<open>clientIdType\<close> resolves the key to the
  resolved peer address \<open>req.ip\<close> when that is non-empty, where it agrees with the
  \<open>ip\<close> mode, and to the literal 127.0.0.1 otherwise, without reading any header or
  the remote address.
\<close>

theorem getClientId_unknown_mode:
  assumes "idType \<notin> {''ip'', ''api-key'', ''user-id''}"
  shows "getClientId req idType =
           (case ip req of None \<Rightarrow> ''127.0.0.1'' | Some a \<Rightarrow> if a = [] then ''127.0.0.1'' else a) \<and>
         (if truthy (ip req) then getClientId req idType = getClientId req ''ip''
          else getClientId req idType = ''127.0.0.1'')"
  using assms
  by (auto simp: getClientId_def or_literal_def or_else_def truthy_def split: option.splits)

theorem getClientId_unknown_mode_witness:
  "getClientId direct_request ''session'' = ''192.168.1.20'' \<and>
   getClientId direct_request ''session'' = getClientId direct_request ''ip''"
  using getClientId_unknown_mode[of "''session''" direct_request]
  by (simp add: direct_request_def truthy_def)
     (simp add: getClientId_def or_literal_def or_else_def truthy_def)

section \<open>Violation log\<close>

lemma recent_first_take: "recent_first vs \<Longrightarrow> recent_first (take n vs)"
  by (simp add: recent_first_def sorted_wrt_take)

text \<open>
  C9. After \<open>createViolation\<close> the log holds at most 100 records, most recent first:
  it is the new record followed by the old log, cut to 100. On a log of 100 records the
  one dropped is the last, the oldest; the order of ids and timestamps is kept when the
  log was ordered, its ids were allocated before and its timestamps are not after
  \<open>now\<close>.
\<close>

theorem createViolation_bounded_recent_first:
  assumes "length (violations st) \<le> 100"
    and "recent_first (violations st)"
    and "\<forall>v \<in> set (violations st). v_id v < currentId st \<and> timestamp v \<le> now"
  shows "length (violations (snd (createViolation now vd st))) \<le> 100 \<and>
         violations (snd (createViolation now vd st)) =
           take 100 (fst (createViolation now vd st) # violations st) \<and>
         recent_first (violations (snd (createViolation now vd st))) \<and>
         (if length (violations st) = 100
          then violations (snd (createViolation now vd st)) =
                 fst (createViolation now vd st) # butlast (violations st)
          else violations (snd (createViolation now vd st)) =
                 fst (createViolation now vd st) # violations st)"
proof -
  let ?v = "fst (createViolation now vd st)"
  let ?st' = "snd (createViolation now vd st)"
  have v: "v_id ?v = currentId st" "timestamp ?v = now"
    by (simp_all add: createViolation_def Let_def)
  have eq: "violations ?st' = take 100 (?v # violations st)"
    by (simp add: createViolation_def Let_def)
  have rf: "recent_first (?v # violations st)"
    using assms(2,3) v by (auto simp: recent_first_def)
  have len: "length (violations ?st') \<le> 100" by (simp add: eq)
  have ord: "recent_first (violations ?st')"
    unfolding eq using rf by (rule recent_first_take)
  have ev: "length (violations st) = 100 \<Longrightarrow> take 100 (?v # violations st) = ?v # butlast (violations st)"
    by (simp add: butlast_conv_take take_Cons')
  have nev: "length (violations st) \<noteq> 100 \<Longrightarrow> take 100 (?v # violations st) = ?v # violations st"
    using assms(1) by (simp add: take_Cons')
  show ?thesis using len eq ord ev nev by simp
qed

lemma full_log_length: "length (violations full_log_store) = 100"
  by (simp add: full_log_store_def)

lemma full_log_recent_first: "recent_first (violations full_log_store)"
proof -
  have "sorted_wrt (\<lambda>a b. a > b) (rev [1..<101::nat])"
    by (simp add: sorted_wrt_rev)
  then have "sorted_wrt (\<lambda>a b. v_id (logged (int b)) < v_id (logged (int a)) \<and>
                    timestamp (logged (int b)) \<le> timestamp (logged (int a))) (rev [1..<101::nat])"
    by (rule sorted_wrt_mono_rel[rotated]) (simp add: logged_def)
  then show ?thesis
    by (simp add: recent_first_def full_log_store_def sorted_wrt_map)
qed

lemma full_log_ids: "\<forall>v \<in> set (violations full_log_store). v_id v < currentId full_log_store \<and> timestamp v \<le> 2000"
  by (auto simp: full_log_store_def logged_def)

theorem createViolation_bounded_recent_first_witness:
  "length (violations (snd (createViolation 2000 denied_request full_log_store))) \<le> 100 \<and>
   recent_first (violations (snd (createViolation 2000 denied_request full_log_store))) \<and>
   violations (snd (createViolation 2000 denied_request full_log_store)) =
     fst (createViolation 2000 denied_request full_log_store) # butlast (violations full_log_store)"
proof -
  have "length (violations full_log_store) \<le> 100" by (simp add: full_log_length)
  note t = createViolation_bounded_recent_first[OF this full_log_recent_first full_log_ids, of denied_request]
  from t have "if length (violations full_log_store) = 100
               then violations (snd (createViolation 2000 denied_request full_log_store)) =
                      fst (createViolation 2000 denied_request full_log_store) # butlast (violations full_log_store)
               else violations (snd (createViolation 2000 denied_request full_log_store)) =
                      fst (createViolation 2000 denied_request full_log_store) # violations full_log_store"
    by blast
  then have "violations (snd (createViolation 2000 denied_request full_log_store)) =
               fst (createViolation 2000 denied_request full_log_store) # butlast (violations full_log_store)"
    by (simp only: full_log_length simp_thms if_True)
  with t show ?thesis by blast
qed

section \<open>Service: counters and the violation log\<close>

lemma TokenBucket_keeps_log:
  "violations (snd (TokenBucket_checkLimit now c cfg st)) = violations st"
  "stats (snd (TokenBucket_checkLimit now c cfg st)) = stats st"
  "configs (snd (TokenBucket_checkLimit now c cfg st)) = configs st"
  by (simp_all add: TokenBucket_checkLimit_def Let_def upsert_keeps_log split: option.splits)

lemma FixedWindow_keeps_log:
  "violations (snd (FixedWindow_checkLimit now c cfg st)) = violations st"
  "stats (snd (FixedWindow_checkLimit now c cfg st)) = stats st"
  "configs (snd (FixedWindow_checkLimit now c cfg st)) = configs st"
  by (simp_all add: FixedWindow_checkLimit_def Let_def upsert_keeps_log split: option.splits)

lemma SlidingWindow_keeps_log:
  "violations (storage (snd (SlidingWindow_checkLimit now c cfg e))) = violations (storage e)"
  "stats (storage (snd (SlidingWindow_checkLimit now c cfg e))) = stats (storage e)"
  "configs (storage (snd (SlidingWindow_checkLimit now c cfg e))) = configs (storage e)"
  by (simp_all add: SlidingWindow_checkLimit_def Let_def upsert_keeps_log)

lemma checkLimit_keeps_log:
  "violations (storage (snd (checkLimit alg now c cfg e))) = violations (storage e)"
  "stats (storage (snd (checkLimit alg now c cfg e))) = stats (storage e)"
  "configs (storage (snd (checkLimit alg now c cfg e))) = configs (storage e)"
  by (cases alg; simp add: split_beta TokenBucket_keeps_log FixedWindow_keeps_log SlidingWindow_keeps_log)+

lemma record_outcome_stats:
  "totalRequests (stats (record_outcome now c ep ok st)) = totalRequests (stats st) + 1"
  "rateLimitedRequests (stats (record_outcome now c ep ok st)) =
     (if ok then rateLimitedRequests (stats st) else rateLimitedRequests (stats st) + 1)"
  by (simp_all add: record_outcome_def Let_def updateSystemStats_def getSystemStats_def createViolation_def)

lemma record_outcome_violations:
  "violations (record_outcome now c ep ok st) =
     (if ok then violations st
      else take 100 (\<lparr>v_id = currentId st, v_clientId = c, endpoint = ep, attempts = 1,
                      timestamp = now, isBlocked = False\<rparr> # violations st))"
  by (simp add: record_outcome_def Let_def updateSystemStats_def getSystemStats_def createViolation_def)

lemma checkRateLimit_Inr:
  assumes "checkRateLimit now c ep e = Inr (r, e')"
  obtains config alg where "getRateLimitConfig (storage e) = Some config"
    and "algorithms (algorithm config) = Some alg"
    and "r = fst (checkLimit alg now c config e)"
    and "e' = (snd (checkLimit alg now c config e))
                \<lparr>storage := record_outcome now c ep (allowed r) (storage (snd (checkLimit alg now c config e)))\<rparr>"
  using assms
  by (auto simp: checkRateLimit_def split_beta Let_def split: option.splits)

text \<open>
  C3. Every call of \<open>checkRateLimit\<close> that returns a decision adds exactly one to
  \<open>totalRequests\<close>. When the decision is allowed, \<open>rateLimitedRequests\<close> and
  the violation log are unchanged; when it is denied, \<open>rateLimitedRequests\<close> grows
  by exactly one and one violation record for this client and endpoint is put at the
  head of the log (which keeps its first 100 records).
\<close>

theorem checkRateLimit_counters:
  assumes "checkRateLimit now clientId ep e = Inr (r, e')"
  shows "totalRequests (stats (storage e')) = totalRequests (stats (storage e)) + 1 \<and>
         (if allowed r
          then rateLimitedRequests (stats (storage e')) = rateLimitedRequests (stats (storage e)) \<and>
               violations (storage e') = violations (storage e)
          else rateLimitedRequests (stats (storage e')) = rateLimitedRequests (stats (storage e)) + 1 \<and>
               (\<exists>v. violations (storage e') = take 100 (v # violations (storage e)) \<and>
                    v_clientId v = clientId \<and> endpoint v = ep \<and> attempts v = 1 \<and>
                    timestamp v = now \<and> \<not> isBlocked v))"
proof -
  from assms obtain config alg where
    e': "e' = (snd (checkLimit alg now clientId config e))
                \<lparr>storage := record_outcome now clientId ep (allowed r)
                               (storage (snd (checkLimit alg now clientId config e)))\<rparr>"
    by (rule checkRateLimit_Inr)
  let ?st1 = "storage (snd (checkLimit alg now clientId config e))"
  have st: "storage e' = record_outcome now clientId ep (allowed r) ?st1"
    by (simp add: e')
  have total: "totalRequests (stats (storage e')) = totalRequests (stats (storage e)) + 1"
    by (simp add: st record_outcome_stats checkLimit_keeps_log)
  have limited: "rateLimitedRequests (stats (storage e')) =
      (if allowed r then rateLimitedRequests (stats (storage e))
       else rateLimitedRequests (stats (storage e)) + 1)"
    by (simp add: st record_outcome_stats checkLimit_keeps_log)
  have log: "violations (storage e') =
      (if allowed r then violations (storage e)
       else take 100 (\<lparr>v_id = currentId ?st1, v_clientId = clientId, endpoint = ep, attempts = 1,
                       timestamp = now, isBlocked = False\<rparr> # violations (storage e)))"
    by (simp add: st record_outcome_violations checkLimit_keeps_log)
  show ?thesis
  proof (cases "allowed r")
    case True
    with total limited log show ?thesis by simp
  next
    case False
    let ?v = "\<lparr>v_id = currentId ?st1, v_clientId = clientId, endpoint = ep, attempts = 1,
                timestamp = now, isBlocked = False\<rparr>"
    have "violations (storage e') = take 100 (?v # violations (storage e)) \<and>
          v_clientId ?v = clientId \<and> endpoint ?v = ep \<and> attempts ?v = 1 \<and>
          timestamp ?v = now \<and> \<not> isBlocked ?v"
      using log False by simp
    then have "\<exists>v. violations (storage e') = take 100 (v # violations (storage e)) \<and>
                    v_clientId v = clientId \<and> endpoint v = ep \<and> attempts v = 1 \<and>
                    timestamp v = now \<and> \<not> isBlocked v"
      by (rule exI)
    with total limited False show ?thesis by simp
  qed
qed

theorem checkRateLimit_counters_witness:
  "map_option allowed (decision (checkRateLimit 2000 ''10.0.0.7'' ''/api/protected/test'' sliding_engine_1)) = Some False \<and>
   totalRequests (stats (storage sliding_engine_2)) = totalRequests (stats (storage sliding_engine_1)) + 1 \<and>
   rateLimitedRequests (stats (storage sliding_engine_2)) =
     rateLimitedRequests (stats (storage sliding_engine_1)) + 1 \<and>
   (\<exists>v. violations (storage sliding_engine_2) = take 100 (v # violations (storage sliding_engine_1)) \<and>
        v_clientId v = ''10.0.0.7'' \<and> endpoint v = ''/api/protected/test'' \<and> attempts v = 1 \<and>
        timestamp v = 2000 \<and> \<not> isBlocked v)"
proof -
  have d: "map_option allowed (decision (checkRateLimit 2000 ''10.0.0.7'' ''/api/protected/test'' sliding_engine_1)) = Some False"
    by code_simp
  then obtain r e' where
    h: "checkRateLimit 2000 ''10.0.0.7'' ''/api/protected/test'' sliding_engine_1 = Inr (r, e')"
    by (auto simp: decision_def split: sum.splits)
  have e': "sliding_engine_2 = e'"
    by (simp add: sliding_engine_2_def next_engine_def h)
  have r: "\<not> allowed r" using d by (simp add: decision_def h)
  from checkRateLimit_counters[OF h] r d show ?thesis by (simp add: e')
qed

section \<open>Service: shape of a decision\<close>








section \<open>Sliding window\<close>




text \<open>
  The order assumed of the timestamp lists is kept by every call: a call at \<open>now\<close>
  appends \<open>now\<close> to a filtered list whose entries are not later.
\<close>

lemma SlidingWindow_times_chronological:
  assumes "\<forall>c ts. requestTimes e c = Some ts \<longrightarrow> sorted ts \<and> (\<forall>t \<in> set ts. t \<le> now)"
  shows "\<forall>c ts. requestTimes (snd (SlidingWindow_checkLimit now clientId config e)) c = Some ts \<longrightarrow>
                 sorted ts \<and> (\<forall>t \<in> set ts. t \<le> now)"
  using assms
  by (auto simp: SlidingWindow_checkLimit_def Let_def sorted_append split: option.splits if_splits
           intro: sorted_wrt_filter)

section \<open>Policy replacement\<close>

lemma find_active_after_update:
  "isActive cfg \<Longrightarrow>
   find isActive (map snd (AList.update k cfg (map (\<lambda>(key, old). (key, old\<lparr>isActive := False\<rparr>)) xs))) =
     Some cfg"
  by (induction xs) auto

text \<open>
  What \<open>updateRateLimitConfig\<close> does do: the state table is empty afterwards, the new
  policy is the active one, and under the limiters that keep their state in the table
  (fixed window, token bucket) the next request of any client is allowed.
\<close>

lemma updateRateLimitConfig_clears:
  "getActiveRateLimit (snd (updateRateLimitConfig now configData st)) clientId = None"
  "activeLimits (snd (updateRateLimitConfig now configData st)) = []"
  by (simp_all add: updateRateLimitConfig_def getActiveRateLimit_def Let_def)

lemma updateRateLimitConfig_installs:
  assumes "ins_isActive configData \<noteq> Some False"
  shows "getRateLimitConfig (snd (updateRateLimitConfig now configData st)) =
           Some (fst (updateRateLimitConfig now configData st))"
proof -
  have "isActive (fst (updateRateLimitConfig now configData st))"
    using assms by (auto simp: updateRateLimitConfig_def Let_def split: option.splits)
  then show ?thesis
    by (simp add: getRateLimitConfig_def updateRateLimitConfig_def Let_def find_active_after_update)
qed

lemma policy_swap_allows_store_limiters:
  assumes "ins_isActive configData \<noteq> Some False"
    and "ins_algorithm configData = ''fixed-window'' \<or> ins_algorithm configData = ''token-bucket''"
  shows "map_option allowed
           (decision (checkRateLimit now' clientId ep (engine_updateRateLimitConfig now configData e))) =
         Some True"
proof -
  let ?st = "snd (updateRateLimitConfig now configData (storage e))"
  let ?cfg = "fst (updateRateLimitConfig now configData (storage e))"
  have c: "getRateLimitConfig ?st = Some ?cfg"
    using assms(1) by (rule updateRateLimitConfig_installs)
  have a: "algorithm ?cfg = ins_algorithm configData"
    by (simp add: updateRateLimitConfig_def Let_def)
  have n: "getActiveRateLimit ?st clientId = None"
    by (rule updateRateLimitConfig_clears)
  from assms(2) show ?thesis
    by (auto simp: checkRateLimit_def engine_updateRateLimitConfig_def c a algorithms_def decision_def
          split_beta Let_def FixedWindow_checkLimit_def TokenBucket_checkLimit_def n)
qed

text \<open>
  C1. The claim: after \<open>updateRateLimitConfig\<close> installs a new active policy the
  state table is empty and a client blocked under the previous policy is allowed again
  on its next call under every algorithm, sliding-window included. The update clears
  \<open>activeLimits\<close> only; the sliding-window limiter decides from its own
  \<open>requestTimes\<close>, which nothing clears. With one request per hour: allowed at
  1000 ms, denied at 2000 ms, the policy installed again at 2500 ms, the table is empty
  and the request at 3000 ms is denied.
\<close>

theorem policy_swap_keeps_sliding_window_block:
  "map_option allowed
     (decision (checkRateLimit 2000 ''10.0.0.7'' ''/api/protected/test'' sliding_engine_1)) = Some False \<and>
   getActiveRateLimit (storage sliding_engine_3) ''10.0.0.7'' = None \<and>
   map_option algorithm (getRateLimitConfig (storage sliding_engine_3)) = Some ''sliding-window'' \<and>
   map_option allowed
     (decision (checkRateLimit 3000 ''10.0.0.7'' ''/api/protected/test'' sliding_engine_3)) = Some False"
  by code_simp

section \<open>The fixed-window scenario of the test scripts\<close>

text \<open>
  Limit 3, window 30 s, five requests of one client within a second: three are
  allowed with \<open>remaining\<close> 2, 1, 0 and two are denied with a positive
  \<open>retryAfter\<close>.
\<close>

lemma fixed_window_admission_scenario:
  "map (map_option (\<lambda>r. (allowed r, remaining r, retryAfter r)))
     (serve (engine_updateRateLimitConfig 0 (policy ''fixed-window'' 3 ''30s'') (new_Engine 0))
        [1000, 1100, 1200, 1300, 1400]) =
   [Some (True, 2, None), Some (True, 1, None), Some (True, 0, None),
    Some (False, 0, Some (Num 29)), Some (False, 0, Some (Num 29))]"
  by code_simp

end
